theory Spec2Isabelle
  imports Complex_Main "HOL-Library.Char_ord" "HOL-Library.List_Lexorder"
    "HOL-Library.Product_Lexorder" "HOL-Library.Multiset"
begin

section \<open>Python values, errors and list operations\<close>

text \<open>
  Exceptions of the source are values: \<open>ValueError\<close> carries the message the source
  builds, \<open>IndexError\<close> is what an out-of-range subscript raises, \<open>SystemExit\<close> is
  what the builtin \<open>exit()\<close> raises. A function that can raise returns
  \<open>error + 'a\<close>, with \<open>Inl\<close> the exception.
\<close>

datatype error = ValueError string | IndexError | SystemExit

text \<open>
  Reactivities are Python floats; they are modelled as reals. The only non-finite value
  the modelled code can create itself is the \<open>nan\<close> that \<open>np.mean\<close> returns on
  an empty list.
\<close>

datatype npfloat = Finite real | NaN

text \<open>
  \<open>xs[i]\<close>: a negative index counts from the end, anything out of range raises.
\<close>

definition py_index :: "'a list \<Rightarrow> int \<Rightarrow> error + 'a" where
  "py_index xs i =
     (let len = int (length xs); j = (if i < 0 then len + i else i)
      in if 0 \<le> j \<and> j < len then Inr (xs ! nat j) else Inl IndexError)"

text \<open>
  \<open>xs[a:b]\<close> with step 1: an absent bound is \<open>None\<close>; a negative bound has the
  length added and is then clamped at 0, a non-negative one is clamped at the length.
  A slice never raises.
\<close>

definition slice_bound :: "nat \<Rightarrow> int \<Rightarrow> nat" where
  "slice_bound len i = (if i < 0 then nat (max (int len + i) 0) else min (nat i) len)"

definition py_slice :: "'a list \<Rightarrow> int option \<Rightarrow> int option \<Rightarrow> 'a list" where
  "py_slice xs a b =
     (let len = length xs;
          lo = (case a of None \<Rightarrow> 0 | Some i \<Rightarrow> slice_bound len i);
          hi = (case b of None \<Rightarrow> len | Some j \<Rightarrow> slice_bound len j)
      in take (hi - lo) (drop lo xs))"

text \<open>\<open>list(range(a, b))\<close>.\<close>

definition py_range :: "int \<Rightarrow> int \<Rightarrow> int list" where
  "py_range a b = [a..b - 1]"

text \<open>\<open>np.mean\<close> of a list of floats; \<open>nan\<close> on the empty list.\<close>

definition np_mean :: "real list \<Rightarrow> npfloat" where
  "np_mean xs = (if xs = [] then NaN else Finite (sum_list xs / real (length xs)))"

text \<open>
  A loop that appends one computed value per row and propagates the first exception:
  \<open>for row in df.iterrows(): ...; all_data.append(...)\<close>.
\<close>

fun for_rows :: "('a \<Rightarrow> error + 'b) \<Rightarrow> 'a list \<Rightarrow> error + 'b list" where
  "for_rows f [] = Inr []"
| "for_rows f (x # xs) =
     (case f x of
        Inl e \<Rightarrow> Inl e
      | Inr y \<Rightarrow> (case for_rows f xs of Inl e \<Rightarrow> Inl e | Inr ys \<Rightarrow> Inr (y # ys)))"

section \<open>The reactivity table\<close>

text \<open>
  A data frame is the list of its rows; a row has the columns the modelled functions
  read or write. The column \<open>structure\<close> is named \<open>structure_str\<close> here.
\<close>

record row =
  name :: string
  run_name :: string
  rna_name :: string
  sequence :: string
  structure_str :: string
  data :: "real list"
  mg_conc :: real
  gaaa :: "real list"
  gaaa_avg :: npfloat

type_synonym table = "row list"

section \<open>data\_processing.py: trimming\<close>

text \<open>
  \<open>trim(df, start, end)\<close>. \<open>seq_ss_trim\<close> is \<open>seq_tools.trim\<close>, an external
  library function, taken as a parameter. The four branches are in the source's
  order; \<open>-end\<close> is the integer negation, so \<open>x[:-end]\<close> at \<open>end = 0\<close> is \<open>x[:0]\<close>.
\<close>

definition trim :: "(table \<Rightarrow> int \<Rightarrow> int \<Rightarrow> table) \<Rightarrow> table \<Rightarrow> int \<Rightarrow> int \<Rightarrow> table" where
  "trim seq_ss_trim df start endv =
     (let df1 = seq_ss_trim df start endv
      in if start = 0 then
           map (\<lambda>r. r\<lparr>data := py_slice (data r) None (Some (- endv))\<rparr>) df1
         else if endv = 0 then
           map (\<lambda>r. r\<lparr>data := py_slice (data r) (Some start) None\<rparr>) df1
         else if start = 0 \<and> endv = 0 then
           map (\<lambda>r. r\<lparr>data := data r\<rparr>) df1
         else
           map (\<lambda>r. r\<lparr>data := py_slice (data r) (Some start) (Some (- endv))\<rparr>) df1)"

text \<open>
  Log records written through the module's logger: the level and the logged object,
  which is a string or, in \<open>clean_data\<close>, one tuple of the duplicates list.
\<close>

datatype log_msg = Msg string | DupGroup "string \<times> real" "string list" "string list"

datatype log_record = LogInfo log_msg | LogError log_msg

text \<open>
  The loop of \<open>trim_p5_and_p3\<close> over the adapter sequences: \<open>common_p5_seq\<close> is
  assigned at every adapter for which \<open>has_5p_sequence\<close> holds, with no \<open>break\<close>.
\<close>

fun common_p5_loop :: "(table \<Rightarrow> string \<Rightarrow> bool) \<Rightarrow> table \<Rightarrow> string list \<Rightarrow> string \<Rightarrow> string" where
  "common_p5_loop has_5p_sequence df [] common_p5_seq = common_p5_seq"
| "common_p5_loop has_5p_sequence df (p5_seq # rest) common_p5_seq =
     common_p5_loop has_5p_sequence df rest
       (if has_5p_sequence df p5_seq then p5_seq else common_p5_seq)"

text \<open>
  \<open>trim_p5_and_p3(df)\<close>. \<open>has_5p_sequence\<close> and \<open>seq_ss_trim\<close> are external library
  functions and parameters here; \<open>df_p5\<close> is the \<open>sequence\<close> column of the adapter
  table after \<open>read_csv\<close> and \<open>to_rna\<close>. The result is the log written and the
  returned table or the exception.
\<close>

definition trim_p5_and_p3 ::
  "(table \<Rightarrow> int \<Rightarrow> int \<Rightarrow> table) \<Rightarrow> (table \<Rightarrow> string \<Rightarrow> bool) \<Rightarrow> string list \<Rightarrow> table
     \<Rightarrow> log_record list \<times> (error + table)" where
  "trim_p5_and_p3 seq_ss_trim has_5p_sequence df_p5 df =
     (let common_p5_seq = common_p5_loop has_5p_sequence df df_p5 []
      in if length common_p5_seq = 0 then
           ([], Inl (ValueError ''No common p5 sequence found''))
         else
           ([LogInfo (Msg (''common p5 sequence: '' @ common_p5_seq))],
            Inr (trim seq_ss_trim df (int (length common_p5_seq)) 20)))"

section \<open>data\_processing.py: motif and sub-structure reactivities\<close>

text \<open>
  The search libraries are external. A motif of \<open>rna_secstruct\<close> exposes its strands,
  each a list of positions; \<open>seq_tools.structure.find\<close> returns one list of
  \<open>(from, to)\<close> bounds per match. Both searches are parameters of the model.
\<close>

record motif_search_params =
  p_sequence :: string
  p_structure :: string

record motif =
  strands :: "int list list"

record sequence_structure =
  ss_sequence :: string
  ss_structure :: string

type_synonym bounds = "(int \<times> int) list"

type_synonym motif_search = "string \<Rightarrow> string \<Rightarrow> motif_search_params \<Rightarrow> motif list"

type_synonym structure_search =
  "sequence_structure \<Rightarrow> sequence_structure \<Rightarrow> int option \<Rightarrow> int option \<Rightarrow> bounds list"

text \<open>\<open>len(s) - s.count("&")\<close>; the count never exceeds the length.\<close>

definition data_len_of :: "string \<Rightarrow> nat" where
  "data_len_of s = length s - count_list s (CHR ''&'')"

text \<open>The body of the row loop of \<open>get_dms_reactivity_for_motif\<close>.\<close>

definition get_dms_reactivity_for_motif_row ::
  "motif_search \<Rightarrow> motif_search_params \<Rightarrow> bool \<Rightarrow> row \<Rightarrow> error + real list" where
  "get_dms_reactivity_for_motif_row get_motifs params err r =
     (let data_len = data_len_of (p_sequence params);
          motifs = get_motifs (sequence r) (structure_str r) params
      in if length motifs \<noteq> 1 \<and> err then
           Inl (ValueError ''More than one motif found'')
         else if length motifs = 0 then
           Inr (replicate data_len (- 1))
         else
           for_rows (py_index (data r)) (concat (strands (hd motifs))))"

definition get_dms_reactivity_for_motif ::
  "motif_search \<Rightarrow> table \<Rightarrow> motif_search_params \<Rightarrow> bool \<Rightarrow> error + real list list" where
  "get_dms_reactivity_for_motif get_motifs df params err =
     for_rows (get_dms_reactivity_for_motif_row get_motifs params err) df"

text \<open>The body of the row loop of \<open>get_dms_reactivity_for_sub_structure\<close>.\<close>

definition get_dms_reactivity_for_sub_structure_row ::
  "structure_search \<Rightarrow> sequence_structure \<Rightarrow> int option \<Rightarrow> int option \<Rightarrow> bool \<Rightarrow> row
     \<Rightarrow> error + real list" where
  "get_dms_reactivity_for_sub_structure_row seq_ss_find sub_seq_struct start endv err r =
     (let data_len = data_len_of (ss_sequence sub_seq_struct);
          ss = \<lparr>ss_sequence = sequence r, ss_structure = structure_str r\<rparr>;
          res = seq_ss_find ss sub_seq_struct start endv
      in if length res = 0 \<and> err then
           Inl (ValueError (''Could not find seq:'' @ ss_sequence sub_seq_struct @
                '' ss:'' @ ss_structure sub_seq_struct @ '' in '' @ name r @
                '' with seq '' @ sequence r @ '' and ss '' @ structure_str r))
         else if length res = 0 then
           Inr (replicate data_len (- 1))
         else if length res > 1 then
           Inl (ValueError (''multiple copies of seq:'' @ ss_sequence sub_seq_struct @
                '' ss:'' @ ss_structure sub_seq_struct @ '' in '' @ name r @
                '' with seq '' @ sequence r @ '' and ss '' @ structure_str r))
         else
           for_rows (py_index (data r))
             (concat (map (\<lambda>b. py_range (fst b) (snd b)) (hd res))))"

definition get_dms_reactivity_for_sub_structure ::
  "structure_search \<Rightarrow> table \<Rightarrow> sequence_structure \<Rightarrow> int option \<Rightarrow> int option \<Rightarrow> bool
     \<Rightarrow> error + real list list" where
  "get_dms_reactivity_for_sub_structure seq_ss_find df sub_seq_struct start endv err =
     for_rows (get_dms_reactivity_for_sub_structure_row seq_ss_find sub_seq_struct start endv err) df"

text \<open>The fixed fragment of \<open>get_dms_reactivity_for_wt_tlr\<close> and the body of its row loop.\<close>

definition m_ss :: sequence_structure where
  "m_ss = \<lparr>ss_sequence = ''UAUGG&CCUAAG'', ss_structure = ''(..((&))...)''\<rparr>"

definition get_dms_reactivity_for_wt_tlr_row ::
  "structure_search \<Rightarrow> int option \<Rightarrow> int option \<Rightarrow> bool \<Rightarrow> row \<Rightarrow> error + real list" where
  "get_dms_reactivity_for_wt_tlr_row seq_ss_find start endv err r =
     (let data_len = data_len_of (ss_sequence m_ss);
          ss = \<lparr>ss_sequence = sequence r, ss_structure = structure_str r\<rparr>;
          res = seq_ss_find ss m_ss start endv
      in if length res = 0 \<and> err then
           Inl (ValueError (''Could not find the tetraloop receptor '' @ ''in '' @ name r @
                '' with seq '' @ sequence r @ '' and ss '' @ structure_str r))
         else if length res = 0 then
           Inr (replicate data_len (- 1))
         else if length res > 1 then
           Inl (ValueError (''multiple copies of the tetraloop receptor where found  '' @
                ''in '' @ name r @ '' with seq '' @ sequence r @ '' and ss '' @ structure_str r))
         else
           (case py_index (hd res) 1 of
              Inl e \<Rightarrow> Inl e
            | Inr b1 \<Rightarrow>
                (case py_index (hd res) 0 of
                   Inl e \<Rightarrow> Inl e
                 | Inr b0 \<Rightarrow>
                     Inr (py_slice (data r) (Some (fst b1)) (Some (snd b1)) @
                          py_slice (data r) (Some (fst b0)) (Some (snd b0))))))"

definition get_dms_reactivity_for_wt_tlr ::
  "structure_search \<Rightarrow> table \<Rightarrow> int option \<Rightarrow> int option \<Rightarrow> bool \<Rightarrow> error + real list list" where
  "get_dms_reactivity_for_wt_tlr seq_ss_find df start endv err =
     for_rows (get_dms_reactivity_for_wt_tlr_row seq_ss_find start endv err) df"

text \<open>
  \<open>get_gaaa_data(df, error)\<close> assigns the columns \<open>gaaa\<close> and \<open>gaaa_avg\<close> of the
  caller's table; the model returns the table after the two assignments, or the
  exception of the search, which leaves the table as it was.
\<close>

definition get_gaaa_data :: "structure_search \<Rightarrow> table \<Rightarrow> bool \<Rightarrow> error + table" where
  "get_gaaa_data seq_ss_find df err =
     (case get_dms_reactivity_for_sub_structure seq_ss_find df
             \<lparr>ss_sequence = ''GGAAAC'', ss_structure = ''(....)''\<rparr> None None err of
        Inl e \<Rightarrow> Inl e
      | Inr col \<Rightarrow>
          Inr (map (\<lambda>r. r\<lparr>gaaa_avg := np_mean (py_slice (gaaa r) (Some 2) (Some (- 1)))\<rparr>)
                 (map (\<lambda>(r, x). r\<lparr>gaaa := x\<rparr>) (zip df col))))"

section \<open>data\_processing.py: grouping, duplicates and the Mg 1/2 table\<close>

text \<open>
  \<open>df.groupby(cols)\<close> with its defaults: one group per distinct key, the keys in
  ascending order, the rows of a group in table order. \<open>Series.unique()\<close> keeps the
  order of first appearance.
\<close>

definition groupby :: "(row \<Rightarrow> 'k::linorder) \<Rightarrow> table \<Rightarrow> ('k \<times> table) list" where
  "groupby key df = map (\<lambda>k. (k, filter (\<lambda>r. key r = k) df)) (sort (remdups (map key df)))"

definition unique :: "'a list \<Rightarrow> 'a list" where
  "unique xs = rev (remdups (rev xs))"

text \<open>\<open>TTRMutsDataProcessor.__get_duplicates\<close>: a group is skipped when it has one run name.\<close>

definition get_duplicates :: "table \<Rightarrow> ((string \<times> real) \<times> string list \<times> string list) list" where
  "get_duplicates df =
     map (\<lambda>(i, g). (i, unique (map run_name g), unique (map rna_name g)))
       (filter (\<lambda>(i, g). length (unique (map run_name g)) \<noteq> 1)
          (groupby (\<lambda>r. (name r, mg_conc r)) df))"

text \<open>
  The table of \<open>TTRMutsDataProcessor.clean_data\<close> when the duplicate check is reached:
  alphabet normalisation (\<open>to_rna\<close>, external), the rewrite of \<open>mg_conc\<close> 0.20 to
  0.25, the three excluded names and the two excluded run and RNA name pairs.
\<close>

definition exclude :: "string list" where
  "exclude = [''PurRe4L5'', ''PtrRe2L5'', ''PurRe2L4'']"

definition clean_data_filtered :: "(table \<Rightarrow> table) \<Rightarrow> table \<Rightarrow> table" where
  "clean_data_filtered to_rna df =
     (let df1 = to_rna df;
          df2 = map (\<lambda>r. if mg_conc r = 0.20 then r\<lparr>mg_conc := 0.25\<rparr> else r) df1;
          df3 = filter (\<lambda>r. name r \<notin> set exclude) df2;
          df4 = filter (\<lambda>r. \<not> (run_name r = ''2022_08_29_mtt6_seq'' \<and>
                   rna_name r = ''mtt6_mutations_set_2_50mM-NaC_0.1-mM-Mg2+'')) df3
      in filter (\<lambda>r. \<not> (run_name r = ''2022_08_29_mtt6_seq'' \<and>
                   rna_name r = ''mtt6_mutations_set_1_50mM-NaC_5-mM-Mg2+'')) df4)"

text \<open>
  \<open>clean_data\<close> on \<open>self.df\<close>: the log written, and the new \<open>self.df\<close> or the
  \<open>SystemExit\<close> of \<open>exit()\<close>. \<open>round_float y 5\<close> is Python's \<open>round(y, 5)\<close> on
  floats, a parameter.
\<close>

definition clean_data ::
  "(table \<Rightarrow> table) \<Rightarrow> (real \<Rightarrow> nat \<Rightarrow> real) \<Rightarrow> table \<Rightarrow> log_record list \<times> (error + table)" where
  "clean_data to_rna round_float df =
     (let df5 = clean_data_filtered to_rna df;
          duplicates = get_duplicates df5
      in if length duplicates > 0 then
           (LogError (Msg ''There are duplicates in the data'') #
              map (\<lambda>(i, runs, rnas). LogError (DupGroup i runs rnas)) duplicates,
            Inl SystemExit)
         else
           ([], Inr (map (\<lambda>r. r\<lparr>data := map (\<lambda>y. round_float y 5) (data r)\<rparr>) df5)))"

text \<open>
  \<open>compute_all_mg_1_2(df)\<close>. The curve fitter \<open>compute_mg_1_2\<close> is a parameter: it
  returns the pair \<open>r\<close> of the fitted values and their errors, or raises.
\<close>

record mg_result =
  res_name :: string
  num_points :: nat
  mg_1_2 :: real
  mg_1_2_err :: real
  hill_n :: real
  hill_n_err :: real
  a_0 :: real
  a_0_err :: real

type_synonym fitter = "real list \<Rightarrow> npfloat list \<Rightarrow> error + (real list \<times> real list)"

definition and_then :: "error + 'a \<Rightarrow> ('a \<Rightarrow> error + 'b) \<Rightarrow> error + 'b" where
  "and_then m f = (case m of Inl e \<Rightarrow> Inl e | Inr x \<Rightarrow> f x)"

definition compute_all_mg_1_2_group :: "fitter \<Rightarrow> string \<times> table \<Rightarrow> error + mg_result" where
  "compute_all_mg_1_2_group compute_mg_1_2 ng =
     and_then (compute_mg_1_2 (map mg_conc (snd ng)) (map gaaa_avg (snd ng))) (\<lambda>r.
     and_then (py_index (fst r) 0) (\<lambda>v0.
     and_then (py_index (snd r) 0) (\<lambda>e0.
     and_then (py_index (fst r) 1) (\<lambda>v1.
     and_then (py_index (snd r) 1) (\<lambda>e1.
     and_then (py_index (fst r) 2) (\<lambda>v2.
     and_then (py_index (snd r) 2) (\<lambda>e2.
       Inr \<lparr>res_name = fst ng, num_points = length (snd ng),
            mg_1_2 = v0, mg_1_2_err = e0, hill_n = v1, hill_n_err = e1,
            a_0 = v2, a_0_err = e2\<rparr>)))))))"

definition compute_all_mg_1_2 :: "fitter \<Rightarrow> table \<Rightarrow> error + mg_result list" where
  "compute_all_mg_1_2 compute_mg_1_2 df =
     for_rows (compute_all_mg_1_2_group compute_mg_1_2)
       (groupby name (filter (\<lambda>r. mg_conc r \<noteq> 5.0) df))"

section \<open>plotting.py: contiguous runs\<close>

text \<open>
  The loop of \<open>find_stretches\<close> over \<open>nums[1:]\<close>, with the variables \<open>start\<close>,
  \<open>end\<close> and \<open>stretches\<close>, and the final \<open>stretches.append([start, end])\<close>.
\<close>

fun stretches_loop :: "int \<Rightarrow> int \<Rightarrow> int list \<Rightarrow> int list list \<Rightarrow> int list list" where
  "stretches_loop start endv [] stretches = stretches @ [[start, endv]]"
| "stretches_loop start endv (num # rest) stretches =
     (if num = endv + 1 then stretches_loop start num rest stretches
      else stretches_loop num num rest (stretches @ [[start, endv]]))"

text \<open>
  \<open>find_stretches(nums)\<close>. \<open>nums.sort()\<close> changes the caller's list, so the function
  returns the list object's new content together with its result; \<open>nums[0]\<close> raises
  on the empty list, after the sort.
\<close>

definition find_stretches :: "int list \<Rightarrow> int list \<times> (error + int list list)" where
  "find_stretches nums =
     (let nums1 = sort nums
      in (nums1,
          case nums1 of
            [] \<Rightarrow> Inl IndexError
          | first # rest \<Rightarrow> Inr (stretches_loop first first rest [])))"

section \<open>Concrete inputs\<close>

text \<open>
  The general theorems below hold for every function in the place of an external one.
  To run the model on concrete tables the parameters are instantiated with the
  following functions.
\<close>

text \<open>
  Modelled from the spec: \<open>seq_tools.trim\<close>, an external library function that is not
  among the sources. Section 4.3 has the trim remove \<open>start\<close> nucleotides from the
  front and \<open>end\<close> nucleotides from the back of \<open>sequence\<close> and \<open>structure\<close>.
\<close>

definition seq_ss_trim_model :: "table \<Rightarrow> int \<Rightarrow> int \<Rightarrow> table" where
  "seq_ss_trim_model df start endv =
     map (\<lambda>r. r\<lparr>sequence := take (length (sequence r) - nat start - nat endv)
                               (drop (nat start) (sequence r)),
               structure_str := take (length (structure_str r) - nat start - nat endv)
                               (drop (nat start) (structure_str r))\<rparr>) df"

text \<open>
  Modelled from the spec: \<open>seq_tools.has_5p_sequence\<close>, external. Section 4.3 asks
  which adapter is a prefix of every row's sequence.
\<close>

definition has_5p_sequence_model :: "table \<Rightarrow> string \<Rightarrow> bool" where
  "has_5p_sequence_model df p5_seq =
     list_all (\<lambda>r. take (length p5_seq) (sequence r) = p5_seq) df"

text \<open>
  Modelled from the spec: \<open>seq_tools.to_rna\<close>, external, the normalisation to the RNA
  alphabet: every T of a sequence becomes U.
\<close>

definition to_rna_model :: "table \<Rightarrow> table" where
  "to_rna_model df =
     map (\<lambda>r. r\<lparr>sequence := map (\<lambda>c. if c = CHR ''T'' then CHR ''U'' else c) (sequence r)\<rparr>) df"

text \<open>
  Python's \<open>round(y, ndigits)\<close> on a real: the nearest multiple of
  \<open>10 ^ (- ndigits)\<close>, a tie going to the even one.
\<close>

definition round_float_model :: "real \<Rightarrow> nat \<Rightarrow> real" where
  "round_float_model y ndigits =
     (let z = y * 10 ^ ndigits; f = \<lfloor>z\<rfloor>
      in real_of_int (if z - of_int f < 1 / 2 then f
                      else if 1 / 2 < z - of_int f then f + 1
                      else if even f then f else f + 1) / 10 ^ ndigits)"

text \<open>
  Three constructs: one with the tetraloop receptor \<open>UAUGG&CCUAAG\<close> around the
  hairpin \<open>GGAAAC\<close>, one hairpin with neither, and one with the hairpin
  \<open>GGAAAC\<close> twice. \<open>find_ex\<close> and \<open>motifs_ex\<close> list what the two external
  searches find in them. \<open>row_p5\<close> starts with the adapters \<open>GGAAGA\<close> and
  \<open>GG\<close>; the remaining tables are titration and duplicate-check inputs, and
  \<open>fit_ex\<close> stands for a curve fitter that returns two three-element vectors.
\<close>

definition row_tlr :: row where
  "row_tlr = \<lparr>name = ''wt'', run_name = ''run_1'', rna_name = ''wt_1'',
      sequence = ''UAUGGGGAAACCCUAAG'', structure_str = ''(..(((....)))...)'',
      data = [1, 2, 3, 4, 5, 6, 7, 8, 9, 10, 11, 12, 13, 14, 15, 16, 17],
      mg_conc = 1, gaaa = [], gaaa_avg = NaN\<rparr>"

definition row_hp :: row where
  "row_hp = \<lparr>name = ''hp'', run_name = ''run_1'', rna_name = ''hp_1'',
      sequence = ''GGGUUCGCCC'', structure_str = ''(((....)))'',
      data = [1, 2, 3, 4, 5, 6, 7, 8, 9, 10],
      mg_conc = 1, gaaa = [], gaaa_avg = NaN\<rparr>"

definition row_twice :: row where
  "row_twice = \<lparr>name = ''two'', run_name = ''run_1'', rna_name = ''two_1'',
      sequence = ''GGAAACGGAAAC'', structure_str = ''(....)(....)'',
      data = [1, 2, 3, 4, 5, 6, 7, 8, 9, 10, 11, 12],
      mg_conc = 1, gaaa = [], gaaa_avg = NaN\<rparr>"

definition find_ex :: structure_search where
  "find_ex ss sub start endv =
     (if ss_sequence ss = ''UAUGGGGAAACCCUAAG'' \<and> ss_sequence sub = ''GGAAAC'' then [[(5, 11)]]
      else if ss_sequence ss = ''UAUGGGGAAACCCUAAG'' \<and> ss_sequence sub = ''UAUGG&CCUAAG''
        then [[(0, 5), (11, 17)]]
      else if ss_sequence ss = ''GGAAACGGAAAC'' \<and> ss_sequence sub = ''GGAAAC''
        then [[(0, 6)], [(6, 12)]]
      else [])"

definition motifs_ex :: motif_search where
  "motifs_ex sq st params =
     (if sq = ''UAUGGGGAAACCCUAAG'' \<and> p_sequence params = ''UAUGG&CCUAAG''
        then [\<lparr>strands = [[0, 1, 2, 3, 4], [11, 12, 13, 14, 15, 16]]\<rparr>]
      else if sq = ''GGAAACGGAAAC'' \<and> p_sequence params = ''GGAAAC''
        then [\<lparr>strands = [[0, 1, 2, 3, 4, 5]]\<rparr>, \<lparr>strands = [[6, 7, 8, 9, 10, 11]]\<rparr>]
      else [])"

definition row_p5 :: row where
  "row_p5 = \<lparr>name = ''wt'', run_name = ''run_1'', rna_name = ''wt_1'',
      sequence = ''GGAAGAUCGAGUAGAUCAAAACAACAACAA'',
      structure_str = ''.......(.....)................'',
      data = [1, 2, 3, 4, 5, 6, 7, 8, 9, 10, 11, 12, 13, 14, 15, 16, 17, 18, 19, 20,
              21, 22, 23, 24, 25, 26, 27, 28, 29, 30],
      mg_conc = 1, gaaa = [], gaaa_avg = NaN\<rparr>"

definition titration_ex :: table where
  "titration_ex =
     [row_hp\<lparr>name := ''b'', mg_conc := 1, gaaa_avg := Finite (1 / 10)\<rparr>,
      row_hp\<lparr>name := ''a'', mg_conc := 1 / 2, gaaa_avg := Finite (2 / 10)\<rparr>,
      row_hp\<lparr>name := ''a'', mg_conc := 5, gaaa_avg := Finite (3 / 10)\<rparr>,
      row_hp\<lparr>name := ''a'', mg_conc := 2, gaaa_avg := Finite (4 / 10)\<rparr>,
      row_hp\<lparr>name := ''b'', mg_conc := 5, gaaa_avg := Finite (5 / 10)\<rparr>]"

definition fit_ex :: fitter where
  "fit_ex xs ys = Inr ([sum_list xs / real (length xs), 2, 1], [1 / 10, 2 / 10, 3 / 10])"

definition dup_ex :: table where
  "dup_ex =
     [row_hp\<lparr>name := ''c1'', run_name := ''run_1'', rna_name := ''c1_a'', mg_conc := 0.20\<rparr>,
      row_hp\<lparr>name := ''c1'', run_name := ''run_2'', rna_name := ''c1_b'', mg_conc := 0.25\<rparr>,
      row_hp\<lparr>name := ''PurRe4L5'', run_name := ''run_1'', rna_name := ''x'', mg_conc := 0.25\<rparr>]"

definition nodup_ex :: table where
  "nodup_ex =
     [row_hp\<lparr>name := ''c1'', run_name := ''run_1'', rna_name := ''c1_a'', mg_conc := 0.20,
             data := [0.123456, 0.5]\<rparr>,
      row_hp\<lparr>name := ''c1'', run_name := ''2022_08_29_mtt6_seq'',
             rna_name := ''mtt6_mutations_set_1_50mM-NaC_5-mM-Mg2+'', mg_conc := 0.25\<rparr>]"

section \<open>Python lists and the row loop\<close>

lemma for_rows_length: "for_rows f xs = Inr ys \<Longrightarrow> length ys = length xs"
  by (induction xs arbitrary: ys) (auto split: sum.splits)

lemma for_rows_nth:
  "for_rows f xs = Inr ys \<Longrightarrow> i < length xs \<Longrightarrow> f (xs ! i) = Inr (ys ! i)"
proof (induction xs arbitrary: ys i)
  case Nil
  then show ?case by simp
next
  case (Cons x xs)
  then show ?case by (cases i) (auto split: sum.splits)
qed

lemma for_rows_total:
  "\<forall>x \<in> set xs. \<exists>y. f x = Inr y \<Longrightarrow> \<exists>ys. for_rows f xs = Inr ys"
  by (induction xs) (auto split: sum.splits)

lemma py_slice_take_drop:
  "0 \<le> lo \<Longrightarrow> lo \<le> hi \<Longrightarrow> hi \<le> int (length xs) \<Longrightarrow>
   py_slice xs (Some lo) (Some hi) = take (nat hi - nat lo) (drop (nat lo) xs)"
proof -
  assume a: "0 \<le> lo" "lo \<le> hi" "hi \<le> int (length xs)"
  then have "nat hi \<le> length xs" "nat lo \<le> length xs" by linarith+
  then have "min (nat hi) (length xs) = nat hi" "min (nat lo) (length xs) = nat lo" by simp_all
  with a show ?thesis by (simp add: py_slice_def slice_bound_def Let_def)
qed

text \<open>A slice with both bounds in range is the list of the elements at the positions
  \<open>lo, ..., hi - 1\<close>.\<close>

lemma py_slice_in_range:
  assumes "0 \<le> lo" "lo \<le> hi" "hi \<le> int (length xs)"
  shows "py_slice xs (Some lo) (Some hi) = map (\<lambda>p. xs ! nat p) [lo..hi - 1]"
proof -
  have "take (nat hi - nat lo) (drop (nat lo) xs) = map (\<lambda>p. xs ! nat p) [lo..hi - 1]"
  proof (rule nth_equalityI)
    show "length (take (nat hi - nat lo) (drop (nat lo) xs)) =
          length (map (\<lambda>p. xs ! nat p) [lo..hi - 1])"
      using assms by simp
  next
    fix k assume "k < length (take (nat hi - nat lo) (drop (nat lo) xs))"
    then have k: "int k < hi - lo" using assms by simp
    have "take (nat hi - nat lo) (drop (nat lo) xs) ! k = xs ! (nat lo + k)"
      using assms k by simp
    moreover have "map (\<lambda>p. xs ! nat p) [lo..hi - 1] ! k = xs ! nat (lo + int k)"
      using assms k by simp
    ultimately show "take (nat hi - nat lo) (drop (nat lo) xs) ! k =
        map (\<lambda>p. xs ! nat p) [lo..hi - 1] ! k"
      using assms by (simp add: nat_add_distrib)
  qed
  with assms show ?thesis by (simp add: py_slice_take_drop)
qed

lemma py_slice_trim:
  "0 \<le> s \<Longrightarrow> 0 < e \<Longrightarrow>
   py_slice xs (Some s) (Some (- e)) = take (length xs - nat s - nat e) (drop (nat s) xs)"
  by (cases "nat s \<le> length xs")
     (auto simp: py_slice_def slice_bound_def Let_def min_def max_def nat_diff_distrib
        nat_add_distrib add.commute)

lemma py_slice_back:
  "0 < e \<Longrightarrow> py_slice xs None (Some (- e)) = take (length xs - nat e) xs"
  by (auto simp: py_slice_def slice_bound_def Let_def max_def nat_diff_distrib)

lemma py_slice_front:
  "0 \<le> s \<Longrightarrow> py_slice xs (Some s) None = drop (nat s) xs"
  by (auto simp: py_slice_def slice_bound_def Let_def min_def)

section \<open>Trimming\<close>

text \<open>
  With non-negative offsets that are not both zero, \<open>trim\<close> keeps of every \<open>data\<close>
  vector the elements from \<open>start\<close> up to the length minus \<open>end\<close>, whatever the
  external trimmer does to the rows.
\<close>

lemma trim_data_not_both_zero:
  assumes "0 \<le> start" "0 \<le> endv" "start \<noteq> 0 \<or> endv \<noteq> 0"
  shows "map data (trim seq_ss_trim df start endv) =
         map (\<lambda>r. take (length (data r) - nat start - nat endv) (drop (nat start) (data r)))
           (seq_ss_trim df start endv)"
proof (cases "start = 0")
  case True
  with assms have "0 < endv" by simp
  with True show ?thesis by (simp add: trim_def py_slice_back comp_def)
next
  case False
  show ?thesis
  proof (cases "endv = 0")
    case True
    with False assms show ?thesis by (simp add: trim_def py_slice_front comp_def)
  next
    case e: False
    with assms have "0 < endv" by simp
    with False e assms show ?thesis by (simp add: trim_def py_slice_trim comp_def)
  qed
qed

text \<open>
  At \<open>start = 0\<close> and \<open>end = 0\<close> the first branch is taken, and \<open>x[:-0]\<close> is the
  empty list: every \<open>data\<close> vector is emptied, for every external trimmer.
\<close>

lemma trim_zero_zero_data_any_trimmer:
  "map data (trim seq_ss_trim df 0 0) = map (\<lambda>r. []) (seq_ss_trim df 0 0)"
  by (simp add: trim_def py_slice_def slice_bound_def)

text \<open>
  Claim C1 (trimming keeps, in \<open>sequence\<close>, \<open>structure\<close> and \<open>data\<close> alike, the
  content from index \<open>s\<close> to index \<open>L - e\<close>, in particular at \<open>s = 0\<close>,
  \<open>e = 0\<close>) fails at \<open>s = 0\<close>, \<open>e = 0\<close>: on a row with ten nucleotides and ten
  reactivities, \<open>trim(df, 0, 0)\<close> leaves \<open>sequence\<close> and \<open>structure\<close> at length
  ten and returns the empty \<open>data\<close> vector. The branch for \<open>start == 0 and end == 0\<close>
  that would keep \<open>data\<close> is never reached.
\<close>

theorem trim_zero_zero_empties_data:
  "map (\<lambda>r. (sequence r, structure_str r, data r)) (trim seq_ss_trim_model [row_hp] 0 0) =
     [(''GGGUUCGCCC'', ''(((....)))'', [])]"
  by (simp add: trim_def seq_ss_trim_model_def row_hp_def py_slice_def slice_bound_def)

section \<open>Extraction: not found, ambiguous, single match\<close>

lemma motif_row_not_found:
  "get_motifs (sequence r) (structure_str r) params = [] \<Longrightarrow>
   get_dms_reactivity_for_motif_row get_motifs params False r =
     Inr (replicate (data_len_of (p_sequence params)) (- 1))"
  by (simp add: get_dms_reactivity_for_motif_row_def)

lemma sub_structure_row_not_found:
  "seq_ss_find \<lparr>ss_sequence = sequence r, ss_structure = structure_str r\<rparr> sub start endv = [] \<Longrightarrow>
   get_dms_reactivity_for_sub_structure_row seq_ss_find sub start endv False r =
     Inr (replicate (data_len_of (ss_sequence sub)) (- 1))"
  by (simp add: get_dms_reactivity_for_sub_structure_row_def)

lemma wt_tlr_row_not_found:
  "seq_ss_find \<lparr>ss_sequence = sequence r, ss_structure = structure_str r\<rparr> m_ss start endv = [] \<Longrightarrow>
   get_dms_reactivity_for_wt_tlr_row seq_ss_find start endv False r =
     Inr (replicate (data_len_of (ss_sequence m_ss)) (- 1))"
  by (simp add: get_dms_reactivity_for_wt_tlr_row_def)

text \<open>
  The two searches by sub-structure raise on more than one match, with the strict flag
  on or off.
\<close>

lemma sub_structure_row_ambiguous:
  "1 < length (seq_ss_find \<lparr>ss_sequence = sequence r, ss_structure = structure_str r\<rparr> sub start endv) \<Longrightarrow>
   \<exists>msg. get_dms_reactivity_for_sub_structure_row seq_ss_find sub start endv err r = Inl (ValueError msg)"
  by (auto simp: get_dms_reactivity_for_sub_structure_row_def Let_def)

lemma wt_tlr_row_ambiguous:
  "1 < length (seq_ss_find \<lparr>ss_sequence = sequence r, ss_structure = structure_str r\<rparr> m_ss start endv) \<Longrightarrow>
   \<exists>msg. get_dms_reactivity_for_wt_tlr_row seq_ss_find start endv err r = Inl (ValueError msg)"
  by (auto simp: get_dms_reactivity_for_wt_tlr_row_def Let_def)

text \<open>
  The motif search raises on more than one match in strict mode only, and in strict
  mode it raises the same exception on no match.
\<close>

lemma motif_row_strict:
  "length (get_motifs (sequence r) (structure_str r) params) \<noteq> 1 \<Longrightarrow>
   get_dms_reactivity_for_motif_row get_motifs params True r =
     Inl (ValueError ''More than one motif found'')"
  by (simp add: get_dms_reactivity_for_motif_row_def)

lemma motif_row_non_strict_takes_first:
  "get_motifs (sequence r) (structure_str r) params = m # ms \<Longrightarrow>
   get_dms_reactivity_for_motif_row get_motifs params False r =
     for_rows (py_index (data r)) (concat (strands m))"
  by (simp add: get_dms_reactivity_for_motif_row_def)

text \<open>
  Claim C2 (a target matched more than once makes the extraction fail, with the strict
  flag on or off, in all three functions) fails for \<open>get_dms_reactivity_for_motif\<close>
  with \<open>error=False\<close>: on a row in which the hairpin \<open>GGAAAC\<close> occurs twice, the
  call returns the reactivities of the first of the two motifs.
\<close>

theorem motif_ambiguous_not_raised:
  "get_dms_reactivity_for_motif motifs_ex [row_twice]
     \<lparr>p_sequence = ''GGAAAC'', p_structure = ''(....)''\<rparr> False = Inr [[1, 2, 3, 4, 5, 6]]"
  by (simp add: get_dms_reactivity_for_motif_def get_dms_reactivity_for_motif_row_def
      motifs_ex_def row_twice_def py_index_def)

text \<open>
  Claim C3 (in strict mode a row with no motif match fails with a "motif not found"
  error): the call fails, and the exception it raises is the
  \<open>ValueError("More than one motif found")\<close> of the ambiguous case.
\<close>

theorem motif_not_found_message:
  "get_dms_reactivity_for_motif motifs_ex [row_hp]
     \<lparr>p_sequence = ''GGAAAC'', p_structure = ''(....)''\<rparr> True =
   Inl (ValueError ''More than one motif found'')"
  by (simp add: get_dms_reactivity_for_motif_def get_dms_reactivity_for_motif_row_def
      motifs_ex_def row_hp_def)

text \<open>
  Claim C4: in non-strict mode, whenever one of the three extraction functions returns,
  a row in which the target is not found has contributed the vector of \<open>-1\<close> whose
  length is the length of the target's sequence minus its number of \<open>&\<close>.
\<close>

theorem not_found_gives_sentinel_vector:
  "i < length df \<Longrightarrow>
   (get_motifs (sequence (df ! i)) (structure_str (df ! i)) params = [] \<longrightarrow>
    get_dms_reactivity_for_motif get_motifs df params False = Inr out1 \<longrightarrow>
    out1 ! i = replicate (length (p_sequence params) - count_list (p_sequence params) (CHR ''&'')) (- 1)) \<and>
   (seq_ss_find \<lparr>ss_sequence = sequence (df ! i), ss_structure = structure_str (df ! i)\<rparr>
      sub start endv = [] \<longrightarrow>
    get_dms_reactivity_for_sub_structure seq_ss_find df sub start endv False = Inr out2 \<longrightarrow>
    out2 ! i = replicate (length (ss_sequence sub) - count_list (ss_sequence sub) (CHR ''&'')) (- 1)) \<and>
   (seq_ss_find \<lparr>ss_sequence = sequence (df ! i), ss_structure = structure_str (df ! i)\<rparr>
      m_ss start endv = [] \<longrightarrow>
    get_dms_reactivity_for_wt_tlr seq_ss_find df start endv False = Inr out3 \<longrightarrow>
    out3 ! i = replicate (length ''UAUGG&CCUAAG'' - count_list ''UAUGG&CCUAAG'' (CHR ''&'')) (- 1))"
proof (intro conjI impI)
  assume i: "i < length df"
  {
    assume nf: "get_motifs (sequence (df ! i)) (structure_str (df ! i)) params = []"
      and ok: "get_dms_reactivity_for_motif get_motifs df params False = Inr out1"
    from ok i have "get_dms_reactivity_for_motif_row get_motifs params False (df ! i) = Inr (out1 ! i)"
      unfolding get_dms_reactivity_for_motif_def by (rule for_rows_nth)
    with nf show "out1 ! i =
        replicate (length (p_sequence params) - count_list (p_sequence params) (CHR ''&'')) (- 1)"
      by (simp add: motif_row_not_found data_len_of_def)
  }
  {
    assume nf: "seq_ss_find \<lparr>ss_sequence = sequence (df ! i), ss_structure = structure_str (df ! i)\<rparr>
        sub start endv = []"
      and ok: "get_dms_reactivity_for_sub_structure seq_ss_find df sub start endv False = Inr out2"
    from ok i have "get_dms_reactivity_for_sub_structure_row seq_ss_find sub start endv False (df ! i)
        = Inr (out2 ! i)"
      unfolding get_dms_reactivity_for_sub_structure_def by (rule for_rows_nth)
    with nf show "out2 ! i =
        replicate (length (ss_sequence sub) - count_list (ss_sequence sub) (CHR ''&'')) (- 1)"
      by (simp add: sub_structure_row_not_found data_len_of_def)
  }
  {
    assume nf: "seq_ss_find \<lparr>ss_sequence = sequence (df ! i), ss_structure = structure_str (df ! i)\<rparr>
        m_ss start endv = []"
      and ok: "get_dms_reactivity_for_wt_tlr seq_ss_find df start endv False = Inr out3"
    from ok i have "get_dms_reactivity_for_wt_tlr_row seq_ss_find start endv False (df ! i)
        = Inr (out3 ! i)"
      unfolding get_dms_reactivity_for_wt_tlr_def by (rule for_rows_nth)
    with nf show "out3 ! i =
        replicate (length ''UAUGG&CCUAAG'' - count_list ''UAUGG&CCUAAG'' (CHR ''&'')) (- 1)"
      by (simp add: wt_tlr_row_not_found data_len_of_def m_ss_def)
  }
qed

theorem not_found_gives_sentinel_vector_witness:
  "(1::nat) < length [row_tlr, row_hp] \<and>
   get_dms_reactivity_for_motif motifs_ex [row_tlr, row_hp]
     \<lparr>p_sequence = ''UAUGG&CCUAAG'', p_structure = ''(..((&))...)''\<rparr> False =
     Inr [[1, 2, 3, 4, 5, 12, 13, 14, 15, 16, 17],
          [- 1, - 1, - 1, - 1, - 1, - 1, - 1, - 1, - 1, - 1, - 1]] \<and>
   get_dms_reactivity_for_sub_structure find_ex [row_tlr, row_hp]
     \<lparr>ss_sequence = ''GGAAAC'', ss_structure = ''(....)''\<rparr> None None False =
     Inr [[6, 7, 8, 9, 10, 11], [- 1, - 1, - 1, - 1, - 1, - 1]] \<and>
   get_dms_reactivity_for_wt_tlr find_ex [row_tlr, row_hp] None None False =
     Inr [[12, 13, 14, 15, 16, 17, 1, 2, 3, 4, 5],
          [- 1, - 1, - 1, - 1, - 1, - 1, - 1, - 1, - 1, - 1, - 1]]"
  using not_found_gives_sentinel_vector [of 1 "[row_tlr, row_hp]" motifs_ex
      "\<lparr>p_sequence = ''UAUGG&CCUAAG'', p_structure = ''(..((&))...)''\<rparr>"
      "[[1, 2, 3, 4, 5, 12, 13, 14, 15, 16, 17],
        [- 1, - 1, - 1, - 1, - 1, - 1, - 1, - 1, - 1, - 1, - 1]]"
      find_ex "\<lparr>ss_sequence = ''GGAAAC'', ss_structure = ''(....)''\<rparr>" None None
      "[[6, 7, 8, 9, 10, 11], [- 1, - 1, - 1, - 1, - 1, - 1]]"
      "[[12, 13, 14, 15, 16, 17, 1, 2, 3, 4, 5],
        [- 1, - 1, - 1, - 1, - 1, - 1, - 1, - 1, - 1, - 1, - 1]]"]
  by (simp add: get_dms_reactivity_for_motif_def get_dms_reactivity_for_motif_row_def
      get_dms_reactivity_for_sub_structure_def get_dms_reactivity_for_sub_structure_row_def
      get_dms_reactivity_for_wt_tlr_def get_dms_reactivity_for_wt_tlr_row_def
      motifs_ex_def find_ex_def row_tlr_def row_hp_def py_index_def py_slice_def slice_bound_def
      py_range_def m_ss_def data_len_of_def)

lemma wt_tlr_row_single:
  assumes "seq_ss_find \<lparr>ss_sequence = sequence r, ss_structure = structure_str r\<rparr> m_ss start endv
             = [b0 # b1 # bs]"
  shows "get_dms_reactivity_for_wt_tlr_row seq_ss_find start endv err r =
           Inr (py_slice (data r) (Some (fst b1)) (Some (snd b1)) @
                py_slice (data r) (Some (fst b0)) (Some (snd b0)))"
  using assms by (simp add: get_dms_reactivity_for_wt_tlr_row_def py_index_def)

text \<open>
  Claim C5: when the search for \<open>UAUGG&CCUAAG\<close> / \<open>(..((&))...)\<close> returns exactly
  one match in a row, with the bounds \<open>[lo0, hi0)\<close> of the first strand and
  \<open>[lo1, hi1)\<close> of the second inside the row's data, and
  \<open>get_dms_reactivity_for_wt_tlr\<close> returns, then the row's vector is the data at the
  positions \<open>lo1, ..., hi1 - 1\<close> followed by the data at the positions
  \<open>lo0, ..., hi0 - 1\<close>.
\<close>

theorem wt_tlr_second_strand_first:
  assumes "i < length df"
    and "seq_ss_find \<lparr>ss_sequence = sequence (df ! i), ss_structure = structure_str (df ! i)\<rparr>
           m_ss start endv = [[(lo0, hi0), (lo1, hi1)]]"
    and "0 \<le> lo0" "lo0 \<le> hi0" "hi0 \<le> int (length (data (df ! i)))"
    and "0 \<le> lo1" "lo1 \<le> hi1" "hi1 \<le> int (length (data (df ! i)))"
    and "get_dms_reactivity_for_wt_tlr seq_ss_find df start endv err = Inr out"
  shows "out ! i = map (\<lambda>p. data (df ! i) ! nat p) [lo1..hi1 - 1] @
                   map (\<lambda>p. data (df ! i) ! nat p) [lo0..hi0 - 1]"
proof -
  from assms(9) assms(1)
  have "get_dms_reactivity_for_wt_tlr_row seq_ss_find start endv err (df ! i) = Inr (out ! i)"
    unfolding get_dms_reactivity_for_wt_tlr_def by (rule for_rows_nth)
  with assms(2) have "out ! i = py_slice (data (df ! i)) (Some lo1) (Some hi1) @
      py_slice (data (df ! i)) (Some lo0) (Some hi0)"
    by (simp add: wt_tlr_row_single)
  then show ?thesis
    using assms(3-8) by (simp add: py_slice_in_range)
qed

theorem wt_tlr_second_strand_first_witness:
  "(0::nat) < length [row_tlr, row_hp] \<and>
   find_ex \<lparr>ss_sequence = sequence ([row_tlr, row_hp] ! 0),
            ss_structure = structure_str ([row_tlr, row_hp] ! 0)\<rparr> m_ss None None =
     [[(0, 5), (11, 17)]] \<and>
   get_dms_reactivity_for_wt_tlr find_ex [row_tlr, row_hp] None None False =
     Inr [[12, 13, 14, 15, 16, 17, 1, 2, 3, 4, 5],
          [- 1, - 1, - 1, - 1, - 1, - 1, - 1, - 1, - 1, - 1, - 1]]"
  using wt_tlr_second_strand_first [of 0 "[row_tlr, row_hp]" find_ex None None 0 5 11 17 False
      "[[12, 13, 14, 15, 16, 17, 1, 2, 3, 4, 5],
        [- 1, - 1, - 1, - 1, - 1, - 1, - 1, - 1, - 1, - 1, - 1]]"]
  by (simp add: get_dms_reactivity_for_wt_tlr_def get_dms_reactivity_for_wt_tlr_row_def
      find_ex_def row_tlr_def row_hp_def py_index_def py_slice_def slice_bound_def
      m_ss_def data_len_of_def)

section \<open>The GAAA columns\<close>

lemma np_mean_middle_of_six:
  "length x = 6 \<Longrightarrow> np_mean (py_slice x (Some 2) (Some (- 1))) = Finite ((x ! 2 + x ! 3 + x ! 4) / 3)"
proof -
  assume "length x = 6"
  then obtain a b c d e f where x: "x = [a, b, c, d, e, f]"
    by (auto simp: length_Suc_conv eval_nat_numeral)
  show ?thesis by (simp add: x np_mean_def py_slice_def slice_bound_def)
qed

text \<open>
  Claim C6: when \<open>get_gaaa_data\<close> returns, the column \<open>gaaa\<close> is the result of the
  sub-structure search for \<open>GGAAAC\<close> / \<open>(....)\<close>, and in every row whose \<open>gaaa\<close>
  vector has six elements \<open>gaaa_avg\<close> is the mean of its elements 2, 3 and 4
  (reactivities taken as reals).
\<close>

theorem gaaa_avg_is_mean_of_elements_2_3_4:
  assumes "get_gaaa_data seq_ss_find df err = Inr df'" and "i < length df'"
    and "length (gaaa (df' ! i)) = 6"
  shows "gaaa_avg (df' ! i) =
           Finite ((gaaa (df' ! i) ! 2 + gaaa (df' ! i) ! 3 + gaaa (df' ! i) ! 4) / 3) \<and>
         get_dms_reactivity_for_sub_structure seq_ss_find df
           \<lparr>ss_sequence = ''GGAAAC'', ss_structure = ''(....)''\<rparr> None None err = Inr (map gaaa df')"
proof -
  from assms(1) obtain col where
    col: "get_dms_reactivity_for_sub_structure seq_ss_find df
            \<lparr>ss_sequence = ''GGAAAC'', ss_structure = ''(....)''\<rparr> None None err = Inr col"
    and df': "df' = map (\<lambda>r. r\<lparr>gaaa_avg := np_mean (py_slice (gaaa r) (Some 2) (Some (- 1)))\<rparr>)
                 (map (\<lambda>(r, x). r\<lparr>gaaa := x\<rparr>) (zip df col))"
    by (auto simp: get_gaaa_data_def split: sum.splits)
  have len: "length col = length df"
    using col unfolding get_dms_reactivity_for_sub_structure_def by (rule for_rows_length)
  have avg: "gaaa_avg (df' ! i) = np_mean (py_slice (gaaa (df' ! i)) (Some 2) (Some (- 1)))"
    using assms(2) by (simp add: df' split_beta)
  have "map gaaa df' = map snd (zip df col)"
    by (simp add: df' split_beta comp_def)
  also have "\<dots> = col" using len by simp
  finally have "map gaaa df' = col" .
  with col avg assms(3) show ?thesis by (simp add: np_mean_middle_of_six)
qed

theorem gaaa_avg_is_mean_of_elements_2_3_4_witness:
  "get_gaaa_data find_ex [row_tlr, row_hp] False =
     Inr [row_tlr\<lparr>gaaa := [6, 7, 8, 9, 10, 11], gaaa_avg := Finite 9\<rparr>,
          row_hp\<lparr>gaaa := [- 1, - 1, - 1, - 1, - 1, - 1], gaaa_avg := Finite (- 1)\<rparr>] \<and>
   (0::nat) < length [row_tlr\<lparr>gaaa := [6, 7, 8, 9, 10, 11], gaaa_avg := Finite 9\<rparr>,
          row_hp\<lparr>gaaa := [- 1, - 1, - 1, - 1, - 1, - 1], gaaa_avg := Finite (- 1)\<rparr>] \<and>
   length [6, 7, 8, 9, 10, 11 :: real] = 6 \<and>
   Finite 9 = Finite ((8 + 9 + 10) / 3)"
  using gaaa_avg_is_mean_of_elements_2_3_4 [of find_ex "[row_tlr, row_hp]" False
      "[row_tlr\<lparr>gaaa := [6, 7, 8, 9, 10, 11], gaaa_avg := Finite 9\<rparr>,
        row_hp\<lparr>gaaa := [- 1, - 1, - 1, - 1, - 1, - 1], gaaa_avg := Finite (- 1)\<rparr>]" 0]
  by (simp add: get_gaaa_data_def get_dms_reactivity_for_sub_structure_def
      get_dms_reactivity_for_sub_structure_row_def find_ex_def row_tlr_def row_hp_def
      py_index_def py_slice_def slice_bound_def py_range_def data_len_of_def np_mean_def)

section \<open>Contiguous runs\<close>

lemma stretches_loop_shape:
  "start \<le> endv \<Longrightarrow> sorted (endv # rest) \<Longrightarrow>
   \<forall>s \<in> set acc. \<exists>a b. s = [a, b] \<and> a \<le> b \<Longrightarrow>
   \<forall>s \<in> set (stretches_loop start endv rest acc). \<exists>a b. s = [a, b] \<and> a \<le> b"
  by (induction start endv rest acc rule: stretches_loop.induct) auto

text \<open>
  The stretches the loop returns, read as inclusive ranges and laid end to end, are the
  stretches already collected, the current stretch and the numbers still to visit.
\<close>

lemma stretches_loop_concat:
  "start \<le> endv \<Longrightarrow>
   concat (map (\<lambda>p. [hd p..last p]) (stretches_loop start endv rest acc)) =
     concat (map (\<lambda>p. [hd p..last p]) acc) @ [start..endv] @ rest"
proof (induction start endv rest acc rule: stretches_loop.induct)
  case (1 start endv stretches)
  then show ?case by simp
next
  case (2 start endv num rest stretches)
  show ?case
  proof (cases "num = endv + 1")
    case True
    with 2 have "[start..num] = [start..endv] @ [num]"
      using upto_rec2 [of start num] by simp
    with 2 True show ?thesis by simp
  next
    case False
    with 2 show ?thesis by simp
  qed
qed

text \<open>
  No stretch the loop returns is followed by one that starts right after its end.
\<close>

lemma stretches_loop_maximal:
  "successively (\<lambda>p q. last p + 1 \<noteq> hd q) (acc @ [[start, endv]]) \<Longrightarrow>
   successively (\<lambda>p q. last p + 1 \<noteq> hd q) (stretches_loop start endv rest acc)"
proof (induction start endv rest acc rule: stretches_loop.induct)
  case (1 start endv stretches)
  then show ?case by simp
next
  case (2 start endv num rest stretches)
  show ?case
  proof (cases "num = endv + 1")
    case True
    from 2(3) have "successively (\<lambda>p q. last p + 1 \<noteq> hd q) (stretches @ [[start, num]])"
      by (simp add: successively_append_iff)
    with 2(1) True show ?thesis by simp
  next
    case False
    from 2(3) False
    have "successively (\<lambda>p q. last p + 1 \<noteq> hd q) ((stretches @ [[start, endv]]) @ [[num, num]])"
      by (simp add: successively_append_iff)
    with 2(2) False show ?thesis by simp
  qed
qed

text \<open>
  Claim C9: on a non-empty list, \<open>find_stretches\<close> leaves the caller's list sorted in
  ascending order, a permutation of what it was, and returns the inclusive stretch
  pairs: every element is \<open>[start, end]\<close> with \<open>start \<le> end\<close>, the ranges
  \<open>start, ..., end\<close> of the pairs in order make up exactly the sorted list, and no pair
  is followed by one that starts at its end plus one, so every stretch is maximal.
\<close>

theorem find_stretches_sorts_in_place:
  "nums \<noteq> [] \<Longrightarrow>
     fst (find_stretches nums) = sort nums \<and>
     sorted (fst (find_stretches nums)) \<and>
     mset (fst (find_stretches nums)) = mset nums \<and>
     (\<exists>s. snd (find_stretches nums) = Inr s \<and>
          (\<forall>p \<in> set s. \<exists>a b. p = [a, b] \<and> a \<le> b) \<and>
          concat (map (\<lambda>p. [hd p..last p]) s) = sort nums \<and>
          successively (\<lambda>p q. last p + 1 \<noteq> hd q) s)"
proof -
  assume ne: "nums \<noteq> []"
  then have "sort nums \<noteq> []" by (metis length_sort length_0_conv)
  then obtain x rest where xr: "sort nums = x # rest" by (cases "sort nums") auto
  have srt: "sorted (x # rest)" using sorted_sort [of nums] xr by simp
  have shape: "\<forall>p \<in> set (stretches_loop x x rest []). \<exists>a b. p = [a, b] \<and> a \<le> b"
    using stretches_loop_shape [of x x rest "[]"] srt by simp
  have cover: "concat (map (\<lambda>p. [hd p..last p]) (stretches_loop x x rest [])) = sort nums"
    using stretches_loop_concat [of x x rest "[]"] xr by simp
  have maximal: "successively (\<lambda>p q. last p + 1 \<noteq> hd q) (stretches_loop x x rest [])"
    using stretches_loop_maximal [of "[]" x x rest] by simp
  have state: "fst (find_stretches nums) = sort nums"
    by (simp add: find_stretches_def Let_def)
  have result: "snd (find_stretches nums) = Inr (stretches_loop x x rest [])"
    using xr by (simp add: find_stretches_def Let_def)
  show ?thesis using state result shape cover maximal by simp
qed

theorem find_stretches_sorts_in_place_witness:
  "[20, 5, 7, 6, 11, 10] \<noteq> ([] :: int list) \<and>
   fst (find_stretches [20, 5, 7, 6, 11, 10]) = [5, 6, 7, 10, 11, 20] \<and>
   snd (find_stretches [20, 5, 7, 6, 11, 10]) = Inr [[5, 7], [10, 11], [20, 20]] \<and>
   concat (map (\<lambda>p. [hd p..last p]) [[5, 7], [10, 11], [20, 20 :: int]]) = [5, 6, 7, 10, 11, 20]"
  using find_stretches_sorts_in_place [of "[20, 5, 7, 6, 11, 10]"]
  by (simp add: find_stretches_def)

section \<open>Adapter trimming\<close>

lemma common_p5_loop_last:
  "common_p5_loop h df ps c =
     (if filter (h df) ps = [] then c else last (filter (h df) ps))"
  by (induction ps arbitrary: c) auto

text \<open>
  Claim C10: when at least one adapter of the reference table passes
  \<open>has_5p_sequence\<close>, in particular when more than one does, the adapter logged and
  whose length is trimmed from the front is the last one that passes, in the table's
  order; an empty last match raises the "no common p5 sequence" error instead.
\<close>

theorem trim_p5_and_p3_uses_last_match:
  assumes "filter (has_5p_sequence df) df_p5 \<noteq> []"
  shows "trim_p5_and_p3 seq_ss_trim has_5p_sequence df_p5 df =
     (if last (filter (has_5p_sequence df) df_p5) = [] then
        ([], Inl (ValueError ''No common p5 sequence found''))
      else
        ([LogInfo (Msg (''common p5 sequence: '' @ last (filter (has_5p_sequence df) df_p5)))],
         Inr (trim seq_ss_trim df (int (length (last (filter (has_5p_sequence df) df_p5)))) 20)))"
  using assms by (simp add: trim_p5_and_p3_def common_p5_loop_last Let_def)

theorem trim_p5_and_p3_uses_last_match_witness:
  "filter (has_5p_sequence_model [row_p5]) [''GGAAGA'', ''GG'', ''CCC''] = [''GGAAGA'', ''GG''] \<and>
   trim_p5_and_p3 seq_ss_trim_model has_5p_sequence_model [''GGAAGA'', ''GG'', ''CCC''] [row_p5] =
     ([LogInfo (Msg ''common p5 sequence: GG'')],
      Inr [row_p5\<lparr>sequence := ''AAGAUCGA'', structure_str := ''.....(..'',
                  data := [3, 4, 5, 6, 7, 8, 9, 10]\<rparr>])"
  using trim_p5_and_p3_uses_last_match [of has_5p_sequence_model "[row_p5]"
      "[''GGAAGA'', ''GG'', ''CCC'']" seq_ss_trim_model]
  by (simp add: has_5p_sequence_model_def seq_ss_trim_model_def row_p5_def trim_def
      py_slice_def slice_bound_def)

section \<open>Grouping and the Mg 1/2 table\<close>

lemma groupby_keys: "map fst (groupby key df) = sort (remdups (map key df))"
  by (simp add: groupby_def comp_def)

lemma groupby_member:
  "(k, g) \<in> set (groupby key df) \<Longrightarrow> g = filter (\<lambda>r. key r = k) df \<and> k \<in> key ` set df"
  by (auto simp: groupby_def)

lemma py_index_Inr: "py_index xs (int k) = Inr x \<Longrightarrow> k < length xs \<and> x = xs ! k"
  by (auto simp: py_index_def Let_def split: if_splits)

lemma compute_all_mg_1_2_group_Inr:
  assumes "compute_all_mg_1_2_group fit (k, g) = Inr \<rho>"
  shows "res_name \<rho> = k \<and> num_points \<rho> = length g \<and>
         (\<exists>v e. fit (map mg_conc g) (map gaaa_avg g) = Inr (v, e) \<and>
            3 \<le> length v \<and> 3 \<le> length e \<and>
            mg_1_2 \<rho> = v ! 0 \<and> mg_1_2_err \<rho> = e ! 0 \<and>
            hill_n \<rho> = v ! 1 \<and> hill_n_err \<rho> = e ! 1 \<and>
            a_0 \<rho> = v ! 2 \<and> a_0_err \<rho> = e ! 2)"
proof -
  from assms obtain r where r: "fit (map mg_conc g) (map gaaa_avg g) = Inr r"
    by (auto simp: compute_all_mg_1_2_group_def and_then_def split: sum.splits)
  from assms r obtain v0 e0 v1 e1 v2 e2 where
    i: "py_index (fst r) 0 = Inr v0" "py_index (snd r) 0 = Inr e0"
       "py_index (fst r) 1 = Inr v1" "py_index (snd r) 1 = Inr e1"
       "py_index (fst r) 2 = Inr v2" "py_index (snd r) 2 = Inr e2"
    and rho: "\<rho> = \<lparr>res_name = k, num_points = length g,
            mg_1_2 = v0, mg_1_2_err = e0, hill_n = v1, hill_n_err = e1,
            a_0 = v2, a_0_err = e2\<rparr>"
    by (auto simp: compute_all_mg_1_2_group_def and_then_def split: sum.splits)
  have "2 < length (fst r) \<and> v0 = fst r ! 0 \<and> v1 = fst r ! 1 \<and> v2 = fst r ! 2"
    using py_index_Inr [of "fst r" 0 v0] py_index_Inr [of "fst r" 1 v1]
      py_index_Inr [of "fst r" 2 v2] i by simp
  moreover have "2 < length (snd r) \<and> e0 = snd r ! 0 \<and> e1 = snd r ! 1 \<and> e2 = snd r ! 2"
    using py_index_Inr [of "snd r" 0 e0] py_index_Inr [of "snd r" 1 e1]
      py_index_Inr [of "snd r" 2 e2] i by simp
  ultimately show ?thesis using r rho by (cases r) auto
qed

text \<open>A fitter that always returns two three-element vectors makes the call return.\<close>

lemma compute_all_mg_1_2_group_returns:
  assumes "fit (map mg_conc (snd ng)) (map gaaa_avg (snd ng)) = Inr (v, e)"
    and "length v = 3" "length e = 3"
  shows "\<exists>\<rho>. compute_all_mg_1_2_group fit ng = Inr \<rho>"
  using assms by (auto simp: compute_all_mg_1_2_group_def and_then_def py_index_def)

lemma compute_all_mg_1_2_returns:
  assumes "\<forall>xs ys. \<exists>v e. fit xs ys = Inr (v, e) \<and> length v = 3 \<and> length e = 3"
  shows "\<exists>res. compute_all_mg_1_2 fit df = Inr res"
  unfolding compute_all_mg_1_2_def
proof (rule for_rows_total, rule ballI)
  fix ng assume "ng \<in> set (groupby name (filter (\<lambda>r. mg_conc r \<noteq> 5.0) df))"
  from assms obtain v e where
    "fit (map mg_conc (snd ng)) (map gaaa_avg (snd ng)) = Inr (v, e)" "length v = 3" "length e = 3"
    by blast
  then show "\<exists>\<rho>. compute_all_mg_1_2_group fit ng = Inr \<rho>"
    by (rule compute_all_mg_1_2_group_returns)
qed

text \<open>
  Claim C7: when \<open>compute_all_mg_1_2\<close> returns, its rows are, in ascending order of
  the name, one per distinct \<open>name\<close> among the rows whose \<open>mg_conc\<close> is not 5.0;
  \<open>num_points\<close> is the number of those rows with that name, and the six fitted
  columns are the elements 0, 1 and 2 of the two vectors the fitter returned on the
  group's \<open>mg_conc\<close> and \<open>gaaa_avg\<close> columns.
\<close>

theorem compute_all_mg_1_2_one_row_per_name:
  assumes "compute_all_mg_1_2 fit df = Inr res"
    and "kept = filter (\<lambda>r. mg_conc r \<noteq> 5) df"
  shows "map res_name res = sort (remdups (map name kept)) \<and>
         distinct (map res_name res) \<and>
         set (map res_name res) = name ` set kept \<and>
         (\<forall>\<rho> \<in> set res.
            num_points \<rho> = length (filter (\<lambda>r. name r = res_name \<rho>) kept) \<and>
            (\<exists>v e. fit (map mg_conc (filter (\<lambda>r. name r = res_name \<rho>) kept))
                       (map gaaa_avg (filter (\<lambda>r. name r = res_name \<rho>) kept)) = Inr (v, e) \<and>
               3 \<le> length v \<and> 3 \<le> length e \<and>
               mg_1_2 \<rho> = v ! 0 \<and> mg_1_2_err \<rho> = e ! 0 \<and>
               hill_n \<rho> = v ! 1 \<and> hill_n_err \<rho> = e ! 1 \<and>
               a_0 \<rho> = v ! 2 \<and> a_0_err \<rho> = e ! 2))"
proof -
  let ?gs = "groupby name kept"
  have run: "for_rows (compute_all_mg_1_2_group fit) ?gs = Inr res"
    using assms by (simp add: compute_all_mg_1_2_def)
  have len: "length res = length ?gs" using run by (rule for_rows_length)
  have row: "compute_all_mg_1_2_group fit (?gs ! j) = Inr (res ! j)" if "j < length ?gs" for j
    using run that by (rule for_rows_nth)
  have at: "res_name (res ! j) = fst (?gs ! j) \<and>
      snd (?gs ! j) = filter (\<lambda>r. name r = res_name (res ! j)) kept" if "j < length ?gs" for j
  proof -
    obtain k g where kg: "?gs ! j = (k, g)" by (cases "?gs ! j")
    then have "(k, g) \<in> set ?gs" using that by (metis nth_mem)
    then have g: "g = filter (\<lambda>r. name r = k) kept" by (simp add: groupby_member)
    from row [OF that] kg have "res_name (res ! j) = k"
      using compute_all_mg_1_2_group_Inr [of fit k g "res ! j"] by simp
    with kg g show ?thesis by simp
  qed
  have names: "map res_name res = map fst ?gs"
    using len at by (intro nth_equalityI) simp_all
  then have n1: "map res_name res = sort (remdups (map name kept))"
    by (simp add: groupby_keys)
  have n2: "distinct (map res_name res)" by (simp add: n1)
  have n3: "set (map res_name res) = name ` set kept" by (simp add: n1)
  have n4: "num_points \<rho> = length (filter (\<lambda>r. name r = res_name \<rho>) kept) \<and>
            (\<exists>v e. fit (map mg_conc (filter (\<lambda>r. name r = res_name \<rho>) kept))
                       (map gaaa_avg (filter (\<lambda>r. name r = res_name \<rho>) kept)) = Inr (v, e) \<and>
               3 \<le> length v \<and> 3 \<le> length e \<and>
               mg_1_2 \<rho> = v ! 0 \<and> mg_1_2_err \<rho> = e ! 0 \<and>
               hill_n \<rho> = v ! 1 \<and> hill_n_err \<rho> = e ! 1 \<and>
               a_0 \<rho> = v ! 2 \<and> a_0_err \<rho> = e ! 2)" if "\<rho> \<in> set res" for \<rho>
  proof -
    from that obtain j where j: "j < length res" "res ! j = \<rho>"
      by (auto simp: in_set_conv_nth)
    then have jl: "j < length ?gs" using len by simp
    obtain k g where kg: "?gs ! j = (k, g)" by (cases "?gs ! j")
    from at [OF jl] kg j have g: "g = filter (\<lambda>r. name r = res_name \<rho>) kept" by simp
    from row [OF jl] kg j g
    have "compute_all_mg_1_2_group fit (k, filter (\<lambda>r. name r = res_name \<rho>) kept) = Inr \<rho>"
      by simp
    from compute_all_mg_1_2_group_Inr [OF this] show ?thesis by blast
  qed
  from n1 n2 n3 n4 show ?thesis by blast
qed

theorem compute_all_mg_1_2_one_row_per_name_witness:
  "compute_all_mg_1_2 fit_ex titration_ex =
     Inr [\<lparr>res_name = ''a'', num_points = 2, mg_1_2 = 5 / 4, mg_1_2_err = 1 / 10,
            hill_n = 2, hill_n_err = 2 / 10, a_0 = 1, a_0_err = 3 / 10\<rparr>,
          \<lparr>res_name = ''b'', num_points = 1, mg_1_2 = 1, mg_1_2_err = 1 / 10,
            hill_n = 2, hill_n_err = 2 / 10, a_0 = 1, a_0_err = 3 / 10\<rparr>] \<and>
   map name (filter (\<lambda>r. mg_conc r \<noteq> 5) titration_ex) = [''b'', ''a'', ''a'']"
  using compute_all_mg_1_2_one_row_per_name [of fit_ex titration_ex
      "[\<lparr>res_name = ''a'', num_points = 2, mg_1_2 = 5 / 4, mg_1_2_err = 1 / 10,
            hill_n = 2, hill_n_err = 2 / 10, a_0 = 1, a_0_err = 3 / 10\<rparr>,
          \<lparr>res_name = ''b'', num_points = 1, mg_1_2 = 1, mg_1_2_err = 1 / 10,
            hill_n = 2, hill_n_err = 2 / 10, a_0 = 1, a_0_err = 3 / 10\<rparr>]"
      "filter (\<lambda>r. mg_conc r \<noteq> 5) titration_ex"]
  by (simp add: compute_all_mg_1_2_def compute_all_mg_1_2_group_def and_then_def groupby_def
      titration_ex_def fit_ex_def row_hp_def py_index_def)

section \<open>Duplicate detection in the mutant library\<close>

lemma length_unique: "length (unique xs) = card (set xs)"
  by (simp add: unique_def length_remdups_card_conv)

lemma unique_not_one:
  "xs \<noteq> [] \<Longrightarrow> length (unique xs) \<noteq> 1 \<longleftrightarrow> (\<exists>a \<in> set xs. \<exists>b \<in> set xs. a \<noteq> b)"
proof -
  assume ne: "xs \<noteq> []"
  then obtain x where x: "x \<in> set xs" by (cases xs) auto
  show ?thesis
  proof
    assume "length (unique xs) \<noteq> 1"
    then have "card (set xs) \<noteq> 1" by (simp add: length_unique)
    then have "set xs \<noteq> {x}" by auto
    with x show "\<exists>a \<in> set xs. \<exists>b \<in> set xs. a \<noteq> b" by blast
  next
    assume "\<exists>a \<in> set xs. \<exists>b \<in> set xs. a \<noteq> b"
    then obtain a b where ab: "a \<in> set xs" "b \<in> set xs" "a \<noteq> b" by blast
    have "card (set xs) \<noteq> 1"
    proof
      assume "card (set xs) = 1"
      then obtain y where "set xs = {y}" by (auto simp: card_1_singleton_iff)
      with ab show False by auto
    qed
    then show "length (unique xs) \<noteq> 1" by (simp add: length_unique)
  qed
qed

lemma map_not_Nil_if_member: "x \<in> set xs \<Longrightarrow> map f xs \<noteq> []"
  by (cases xs) auto

lemma not_Nil_if_member: "x \<in> set xs \<Longrightarrow> xs \<noteq> []"
  by auto

lemma groupby_member_iff:
  "(k, g) \<in> set (groupby key df) \<longleftrightarrow> g = filter (\<lambda>r. key r = k) df \<and> k \<in> key ` set df"
  by (auto simp: groupby_def)

lemma get_duplicates_member_iff:
  "(i, runs, rnas) \<in> set (get_duplicates df) \<longleftrightarrow>
     i \<in> (\<lambda>r. (name r, mg_conc r)) ` set df \<and>
     runs = unique (map run_name (filter (\<lambda>r. (name r, mg_conc r) = i) df)) \<and>
     rnas = unique (map rna_name (filter (\<lambda>r. (name r, mg_conc r) = i) df)) \<and>
     length (unique (map run_name (filter (\<lambda>r. (name r, mg_conc r) = i) df))) \<noteq> 1"
  unfolding get_duplicates_def by (auto simp: groupby_member_iff)

lemma member_map: "x \<in> set xs \<Longrightarrow> f x \<in> set (map f xs)"
  by simp

lemma offending_pair_in_duplicates:
  assumes "r1 \<in> set df" "r2 \<in> set df" "name r1 = name r2" "mg_conc r1 = mg_conc r2"
    "run_name r1 \<noteq> run_name r2"
  shows "((name r1, mg_conc r1),
          unique (map run_name (filter (\<lambda>r. name r = name r1 \<and> mg_conc r = mg_conc r1) df)),
          unique (map rna_name (filter (\<lambda>r. name r = name r1 \<and> mg_conc r = mg_conc r1) df)))
         \<in> set (get_duplicates df)"
proof -
  let ?g = "filter (\<lambda>r. (name r, mg_conc r) = (name r1, mg_conc r1)) df"
  have g1: "r1 \<in> set ?g" using assms(1) by simp
  have g2: "r2 \<in> set ?g" using assms(2,3,4) by simp
  have m1: "run_name r1 \<in> set (map run_name ?g)" using g1 by (rule member_map)
  have m2: "run_name r2 \<in> set (map run_name ?g)" using g2 by (rule member_map)
  have ne: "map run_name ?g \<noteq> []" using g1 by (rule map_not_Nil_if_member)
  have many: "length (unique (map run_name ?g)) \<noteq> 1"
    using unique_not_one [OF ne] m1 m2 assms(5) by blast
  have key: "(name r1, mg_conc r1) \<in> (\<lambda>r. (name r, mg_conc r)) ` set df"
    using assms(1) by (rule imageI)
  have eq: "filter (\<lambda>r. name r = name r1 \<and> mg_conc r = mg_conc r1) df = ?g" by simp
  show ?thesis
    unfolding eq using many key by (simp only: get_duplicates_member_iff simp_thms)
qed

lemma duplicates_have_offending_pair:
  assumes "get_duplicates df \<noteq> []"
  shows "\<exists>r1 \<in> set df. \<exists>r2 \<in> set df.
           name r1 = name r2 \<and> mg_conc r1 = mg_conc r2 \<and> run_name r1 \<noteq> run_name r2"
proof -
  from assms obtain i runs rnas where "(i, runs, rnas) \<in> set (get_duplicates df)"
    by (cases "get_duplicates df") auto
  then have i: "i \<in> (\<lambda>r. (name r, mg_conc r)) ` set df"
    and n1: "length (unique (map run_name (filter (\<lambda>r. (name r, mg_conc r) = i) df))) \<noteq> 1"
    by (simp_all add: get_duplicates_member_iff)
  let ?g = "filter (\<lambda>r. (name r, mg_conc r) = i) df"
  from i obtain r0 where "r0 \<in> set df" "(name r0, mg_conc r0) = i" by auto
  then have "r0 \<in> set ?g" by simp
  then have "map run_name ?g \<noteq> []" by (rule map_not_Nil_if_member)
  from unique_not_one [OF this] n1
  obtain a b where "a \<in> set (map run_name ?g)" "b \<in> set (map run_name ?g)" "a \<noteq> b" by blast
  then obtain r1 r2 where r: "r1 \<in> set ?g" "r2 \<in> set ?g" "run_name r1 \<noteq> run_name r2" by auto
  then have "r1 \<in> set df" "r2 \<in> set df" "(name r1, mg_conc r1) = i" "(name r2, mg_conc r2) = i"
    by simp_all
  then have "r1 \<in> set df \<and> r2 \<in> set df \<and> name r1 = name r2 \<and> mg_conc r1 = mg_conc r2"
    by auto
  with r(3) show ?thesis by blast
qed

lemma clean_data_exit:
  "get_duplicates (clean_data_filtered to_rna df) \<noteq> [] \<Longrightarrow>
   clean_data to_rna round_float df =
     (LogError (Msg ''There are duplicates in the data'') #
        map (\<lambda>(i, runs, rnas). LogError (DupGroup i runs rnas))
          (get_duplicates (clean_data_filtered to_rna df)),
      Inl SystemExit)"
  by (simp add: clean_data_def Let_def)

lemma clean_data_completes:
  "get_duplicates (clean_data_filtered to_rna df) = [] \<Longrightarrow>
   clean_data to_rna round_float df =
     ([], Inr (map (\<lambda>r. r\<lparr>data := map (\<lambda>y. round_float y 5) (data r)\<rparr>)
                (clean_data_filtered to_rna df)))"
  by (simp add: clean_data_def Let_def)

text \<open>
  Claim C8: let \<open>df5\<close> be the table of \<open>clean_data\<close> after the fixed exclusions.
  If two of its rows share \<open>name\<close> and \<open>mg_conc\<close> and differ in \<open>run_name\<close>,
  \<open>clean_data\<close> ends in \<open>SystemExit\<close> with no cleaned table, and for every such
  pair the group's key with its run names and RNA names is in the log at error level.
  If there is no such pair, nothing is logged and the cleaned table is \<open>df5\<close> with
  every reactivity rounded to 5 places.
\<close>

theorem clean_data_duplicates_hard_stop:
  assumes "df5 = clean_data_filtered to_rna df"
  shows "((\<exists>r1 \<in> set df5. \<exists>r2 \<in> set df5.
             name r1 = name r2 \<and> mg_conc r1 = mg_conc r2 \<and> run_name r1 \<noteq> run_name r2) \<longrightarrow>
          snd (clean_data to_rna round_float df) = Inl SystemExit \<and>
          (\<forall>r1 \<in> set df5. \<forall>r2 \<in> set df5.
             name r1 = name r2 \<and> mg_conc r1 = mg_conc r2 \<and> run_name r1 \<noteq> run_name r2 \<longrightarrow>
             LogError (DupGroup (name r1, mg_conc r1)
               (unique (map run_name (filter (\<lambda>r. name r = name r1 \<and> mg_conc r = mg_conc r1) df5)))
               (unique (map rna_name (filter (\<lambda>r. name r = name r1 \<and> mg_conc r = mg_conc r1) df5))))
             \<in> set (fst (clean_data to_rna round_float df)))) \<and>
         (\<not> (\<exists>r1 \<in> set df5. \<exists>r2 \<in> set df5.
             name r1 = name r2 \<and> mg_conc r1 = mg_conc r2 \<and> run_name r1 \<noteq> run_name r2) \<longrightarrow>
          fst (clean_data to_rna round_float df) = [] \<and>
          snd (clean_data to_rna round_float df) =
            Inr (map (\<lambda>r. r\<lparr>data := map (\<lambda>y. round_float y 5) (data r)\<rparr>) df5))"
proof (intro conjI impI)
  assume off: "\<exists>r1 \<in> set df5. \<exists>r2 \<in> set df5.
      name r1 = name r2 \<and> mg_conc r1 = mg_conc r2 \<and> run_name r1 \<noteq> run_name r2"
  then obtain r1 r2 where "r1 \<in> set df5" "r2 \<in> set df5" "name r1 = name r2"
    "mg_conc r1 = mg_conc r2" "run_name r1 \<noteq> run_name r2" by blast
  from offending_pair_in_duplicates [OF this] have ne: "get_duplicates df5 \<noteq> []"
    by (rule not_Nil_if_member)
  then show "snd (clean_data to_rna round_float df) = Inl SystemExit"
    unfolding assms by (simp add: clean_data_exit)
  have log: "fst (clean_data to_rna round_float df) =
      LogError (Msg ''There are duplicates in the data'') #
      map (\<lambda>(i, runs, rnas). LogError (DupGroup i runs rnas)) (get_duplicates df5)"
    using ne unfolding assms by (simp add: clean_data_exit)
  show "\<forall>r1 \<in> set df5. \<forall>r2 \<in> set df5.
      name r1 = name r2 \<and> mg_conc r1 = mg_conc r2 \<and> run_name r1 \<noteq> run_name r2 \<longrightarrow>
      LogError (DupGroup (name r1, mg_conc r1)
        (unique (map run_name (filter (\<lambda>r. name r = name r1 \<and> mg_conc r = mg_conc r1) df5)))
        (unique (map rna_name (filter (\<lambda>r. name r = name r1 \<and> mg_conc r = mg_conc r1) df5))))
      \<in> set (fst (clean_data to_rna round_float df))"
  proof (intro ballI impI)
    fix r1 r2
    assume a: "r1 \<in> set df5" "r2 \<in> set df5"
      and b: "name r1 = name r2 \<and> mg_conc r1 = mg_conc r2 \<and> run_name r1 \<noteq> run_name r2"
    from b have "name r1 = name r2" "mg_conc r1 = mg_conc r2" "run_name r1 \<noteq> run_name r2"
      by simp_all
    with a have "((name r1, mg_conc r1),
          unique (map run_name (filter (\<lambda>r. name r = name r1 \<and> mg_conc r = mg_conc r1) df5)),
          unique (map rna_name (filter (\<lambda>r. name r = name r1 \<and> mg_conc r = mg_conc r1) df5)))
         \<in> set (get_duplicates df5)"
      by (rule offending_pair_in_duplicates)
    then have "(\<lambda>(i, runs, rnas). LogError (DupGroup i runs rnas)) ((name r1, mg_conc r1),
          unique (map run_name (filter (\<lambda>r. name r = name r1 \<and> mg_conc r = mg_conc r1) df5)),
          unique (map rna_name (filter (\<lambda>r. name r = name r1 \<and> mg_conc r = mg_conc r1) df5)))
         \<in> (\<lambda>(i, runs, rnas). LogError (DupGroup i runs rnas)) ` set (get_duplicates df5)"
      by (rule imageI)
    then show "LogError (DupGroup (name r1, mg_conc r1)
        (unique (map run_name (filter (\<lambda>r. name r = name r1 \<and> mg_conc r = mg_conc r1) df5)))
        (unique (map rna_name (filter (\<lambda>r. name r = name r1 \<and> mg_conc r = mg_conc r1) df5))))
      \<in> set (fst (clean_data to_rna round_float df))"
      by (simp add: log)
  qed
next
  assume noff: "\<not> (\<exists>r1 \<in> set df5. \<exists>r2 \<in> set df5.
      name r1 = name r2 \<and> mg_conc r1 = mg_conc r2 \<and> run_name r1 \<noteq> run_name r2)"
  then have e: "get_duplicates df5 = []"
    using duplicates_have_offending_pair [of df5] by blast
  then show "fst (clean_data to_rna round_float df) = []"
    unfolding assms by (simp add: clean_data_completes)
  from e show "snd (clean_data to_rna round_float df) =
      Inr (map (\<lambda>r. r\<lparr>data := map (\<lambda>y. round_float y 5) (data r)\<rparr>) df5)"
    unfolding assms by (simp add: clean_data_completes)
qed

theorem clean_data_duplicates_hard_stop_witness:
  "map (\<lambda>r. (name r, mg_conc r, run_name r)) (clean_data_filtered to_rna_model dup_ex) =
     [(''c1'', 1 / 4, ''run_1''), (''c1'', 1 / 4, ''run_2'')] \<and>
   map (\<lambda>r. (name r, mg_conc r, run_name r)) (clean_data_filtered to_rna_model nodup_ex) =
     [(''c1'', 1 / 4, ''run_1'')] \<and>
   clean_data to_rna_model round_float_model dup_ex =
     ([LogError (Msg ''There are duplicates in the data''),
       LogError (DupGroup (''c1'', 1 / 4) [''run_1'', ''run_2''] [''c1_a'', ''c1_b''])],
      Inl SystemExit) \<and>
   clean_data to_rna_model round_float_model nodup_ex =
     ([], Inr [row_hp\<lparr>name := ''c1'', run_name := ''run_1'', rna_name := ''c1_a'',
                     mg_conc := 1 / 4, data := [0.12346, 0.5]\<rparr>])"
  using clean_data_duplicates_hard_stop [OF refl, of to_rna_model dup_ex round_float_model]
    clean_data_duplicates_hard_stop [OF refl, of to_rna_model nodup_ex round_float_model]
  by (simp add: clean_data_def clean_data_filtered_def get_duplicates_def groupby_def unique_def
      exclude_def to_rna_model_def round_float_model_def dup_ex_def nodup_ex_def row_hp_def Let_def)

end
